theory Spec2Isabelle
  imports Main "HOL-Library.Word"
begin

section \<open>JavaScript strings\<close>

text \<open>
  A JavaScript string is a sequence of UTF-16 code units. String literals of the source
  that are plain ASCII are written with \<open>lit\<close>.
\<close>

type_synonym jsstring = "16 word list"

definition lit :: "string \<Rightarrow> jsstring" where
  "lit s = map of_char s"

text \<open>
  \<open>String.prototype.trim\<close> removes leading and trailing code units that are
  WhiteSpace or LineTerminator in the sense of ECMAScript: TAB, LF, VT, FF, CR, SP, NBSP,
  U+1680, U+2000 to U+200A, LS, PS, U+202F, U+205F, U+3000 and the byte order mark.
\<close>

definition is_white_space :: "16 word \<Rightarrow> bool" where
  "is_white_space c \<longleftrightarrow>
     c = 0x9 \<or> c = 0xA \<or> c = 0xB \<or> c = 0xC \<or> c = 0xD \<or> c = 0x20 \<or> c = 0xA0 \<or>
     c = 0x1680 \<or> (0x2000 \<le> c \<and> c \<le> 0x200A) \<or> c = 0x2028 \<or> c = 0x2029 \<or>
     c = 0x202F \<or> c = 0x205F \<or> c = 0x3000 \<or> c = 0xFEFF"

definition trim :: "jsstring \<Rightarrow> jsstring" where
  "trim s = rev (dropWhile is_white_space (rev (dropWhile is_white_space s)))"

section \<open>Data model of the recipe editor\<close>

text \<open>
  The declarations of \<open>Step\<close> and \<open>Recipe\<close> live in \<open>../types\<close>; the
  editor reads the fields below (\<open>step_text\<close> is the field \<open>text\<close>, \<open>recipe_id\<close> is
  \<open>id\<close>, \<open>recipe_steps\<close> is \<open>steps\<close>). A field that may be \<open>undefined\<close> is an option.
  \<open>'i\<close> is the type of an ingredient entry.
\<close>

record step =
  step_text :: "jsstring option"
  description :: "jsstring option"
  imageUrl :: "jsstring option"

record 'i recipe =
  recipe_id :: "jsstring option"
  createdByUser :: "bool option"
  ingredients :: "'i list option"
  recipe_steps :: "step list option"

datatype modal = CREATE_SUCCESS | EDIT_SUCCESS | ERROR

text \<open>
  The component state: the route parameter \<open>recipe\<close> (absent when the screen is entered
  without one) and the seven \<open>useState\<close> cells.
\<close>

record 'i screen =
  recipe :: "'i recipe option"
  steps :: "step list"
  showSuccessModal :: bool
  showErrorModal :: bool
  isEditing :: bool
  saving :: bool
  modalType :: "modal option"
  errorType :: jsstring

text \<open>
  What a handler shows to the outside (an alert with its title and message, a line on the
  console), and the calls of the recipe store: \<open>editRecipe(id, recipe)\<close> and
  \<open>addRecipe(recipe)\<close>. A thrown value is an \<open>Error\<close> object with its message, or
  something else.
\<close>

datatype thrown = Error jsstring | NotAnError

datatype effect = Alert jsstring jsstring | ConsoleError thrown

datatype 'i call = EditRecipe jsstring "'i recipe" | AddRecipe "'i recipe"

datatype js_error = TypeError

text \<open>\<open>useState(recipe?.steps || [])\<close> and the initial values of the other cells.\<close>

definition initial_steps :: "'i recipe option \<Rightarrow> step list" where
  "initial_steps p =
     (case p of
        None \<Rightarrow> []
      | Some r \<Rightarrow> (case recipe_steps r of None \<Rightarrow> [] | Some ss \<Rightarrow> ss))"

definition initial_screen :: "'i recipe option \<Rightarrow> 'i screen" where
  "initial_screen p =
     \<lparr>recipe = p, steps = initial_steps p, showSuccessModal = False,
      showErrorModal = False, isEditing = False, saving = False, modalType = None,
      errorType = []\<rparr>"

section \<open>Step list editor\<close>

definition addStep :: "'i screen \<Rightarrow> 'i screen" where
  "addStep st =
     st\<lparr>steps := steps st @ [\<lparr>step_text = Some [], description = None, imageUrl = Some []\<rparr>]\<rparr>"

text \<open>\<open>steps.filter((_, i) => i !== index)\<close>: keep the elements whose position differs.\<close>

definition filter_index :: "int \<Rightarrow> 'a list \<Rightarrow> 'a list" where
  "filter_index index xs =
     map snd (filter (\<lambda>(i, _). int i \<noteq> index) (enumerate 0 xs))"

definition removeStep :: "int \<Rightarrow> 'i screen \<Rightarrow> 'i screen \<times> effect list" where
  "removeStep index st =
     (if length (steps st) > 1
      then (st\<lparr>steps := filter_index index (steps st)\<rparr>, [])
      else (st, [Alert (lit ''Error'') (lit ''Debe tener al menos un paso'')]))"

datatype step_field = Text | Description | ImageUrl

definition set_field :: "step_field \<Rightarrow> jsstring \<Rightarrow> step \<Rightarrow> step" where
  "set_field field v s =
     (case field of
        Text \<Rightarrow> s\<lparr>step_text := Some v\<rparr>
      | Description \<Rightarrow> s\<lparr>description := Some v\<rparr>
      | ImageUrl \<Rightarrow> s\<lparr>imageUrl := Some v\<rparr>)"

text \<open>
  \<open>updated[index]\<close> is \<open>undefined\<close> outside the array, and assigning a property of
  \<open>undefined\<close> throws before \<open>setSteps\<close> runs. Inside the array the assignment
  changes the step object itself. The copied array shares that object with the previous
  array, and a step that came with the payload is the same object in \<open>recipe.steps\<close>,
  so the step of the payload changes with it. The model holds the steps by value and does
  not follow this sharing: \<open>steps\<close> is the new array, and \<open>recipe_steps\<close> of
  \<open>recipe\<close> stays the list as it was at entry. After entry the screen reads of the
  payload only \<open>ingredients\<close>, \<open>id\<close>, \<open>createdByUser\<close> and the fields that
  \<open>handleSave\<close> copies into \<open>completeRecipe\<close>, where \<open>steps\<close> is replaced.
\<close>

definition handleChange ::
  "int \<Rightarrow> step_field \<Rightarrow> jsstring \<Rightarrow> 'i screen \<Rightarrow> js_error + 'i screen" where
  "handleChange index field v st =
     (if 0 \<le> index \<and> index < int (length (steps st))
      then Inr (st\<lparr>steps := (steps st)[nat index := set_field field v (steps st ! nat index)]\<rparr>)
      else Inl TypeError)"

text \<open>
  The operations the screen offers on the step list: the add button, the remove button of
  a step, and the two inputs of a step. An exception in \<open>handleChange\<close> leaves the
  state as it was.
\<close>

datatype editor_op = OpAdd | OpRemove int | OpChange int step_field jsstring

definition apply_op :: "editor_op \<Rightarrow> 'i screen \<Rightarrow> 'i screen" where
  "apply_op op st =
     (case op of
        OpAdd \<Rightarrow> addStep st
      | OpRemove index \<Rightarrow> fst (removeStep index st)
      | OpChange index field v \<Rightarrow>
          (case handleChange index field v st of Inl _ \<Rightarrow> st | Inr st' \<Rightarrow> st'))"

fun run_ops :: "editor_op list \<Rightarrow> 'i screen \<Rightarrow> 'i screen" where
  "run_ops [] st = st"
| "run_ops (op # ops) st = run_ops ops (apply_op op st)"

section \<open>Save coordinator\<close>

text \<open>
  \<open>s && s.trim() !== ''\<close> for a field \<open>s\<close> that is a string or \<open>undefined\<close>:
  \<open>undefined\<close> and the empty string are falsy.
\<close>

definition truthy :: "jsstring option \<Rightarrow> bool" where
  "truthy x = (case x of None \<Rightarrow> False | Some s \<Rightarrow> s \<noteq> [])"

definition nonblank :: "jsstring option \<Rightarrow> bool" where
  "nonblank x = (case x of None \<Rightarrow> False | Some s \<Rightarrow> s \<noteq> [] \<and> trim s \<noteq> [])"

definition valid_step :: "step \<Rightarrow> bool" where
  "valid_step s \<longleftrightarrow> nonblank (step_text s) \<or> nonblank (description s)"

text \<open>
  \<open>recipe.id && recipe.id.trim() !== '' && recipe.createdByUser\<close>: the identity under
  which the recipe is updated, if it is.
\<close>

definition edit_id :: "'i recipe \<Rightarrow> jsstring option" where
  "edit_id r =
     (case recipe_id r of
        None \<Rightarrow> None
      | Some i \<Rightarrow> if i \<noteq> [] \<and> trim i \<noteq> [] \<and> createdByUser r = Some True then Some i else None)"

text \<open>
  \<open>handleSave\<close> up to its \<open>await\<close>: the validation, \<open>setSaving(true)\<close> and the call
  of the store. The result holds the call that is awaited, or \<open>None\<close> when the handler
  has returned. Reading \<open>recipe.ingredients\<close> of an absent recipe throws. The handler
  does not read \<open>saving\<close>; the screen passes it to the save button as
  \<open>disabled\<close>.
\<close>

definition handleSave_begin ::
  "'i screen \<Rightarrow> js_error + ('i screen \<times> effect list \<times> 'i call option)" where
  "handleSave_begin st =
     (case recipe st of
        None \<Rightarrow> Inl TypeError
      | Some r \<Rightarrow>
          if (case ingredients r of None \<Rightarrow> True | Some igs \<Rightarrow> length igs = 0)
          then Inr (st, [Alert (lit ''Error'') (lit ''Debe ingresar al menos un ingrediente.'')],
                    None)
          else
            let validSteps = filter valid_step (steps st) in
            if length validSteps = 0
            then Inr (st, [Alert (lit ''Error'') (lit ''Debe ingresar al menos un paso.'')], None)
            else
              let completeRecipe = r\<lparr>recipe_steps := Some validSteps\<rparr> in
              (case edit_id r of
                 Some i \<Rightarrow> Inr (st\<lparr>saving := True\<rparr>, [], Some (EditRecipe i completeRecipe))
               | None \<Rightarrow> Inr (st\<lparr>saving := True\<rparr>, [], Some (AddRecipe completeRecipe))))"

text \<open>
  The rest of \<open>handleSave\<close>, once the awaited call has settled: the success branch of
  the call, or the \<open>catch\<close> block, and then the \<open>finally\<close> block.
\<close>

datatype outcome = Resolved | Rejected thrown

definition error_message :: "thrown \<Rightarrow> jsstring" where
  "error_message e = (case e of Error m \<Rightarrow> m | NotAnError \<Rightarrow> lit ''ERROR_GENERAL'')"

definition handleSave_resume ::
  "'i call \<Rightarrow> outcome \<Rightarrow> 'i screen \<Rightarrow> 'i screen \<times> effect list" where
  "handleSave_resume c out st =
     (case out of
        Resolved \<Rightarrow>
          (case c of
             EditRecipe _ _ \<Rightarrow>
               (st\<lparr>isEditing := True, modalType := Some EDIT_SUCCESS,
                   showSuccessModal := True, saving := False\<rparr>, [])
           | AddRecipe _ \<Rightarrow>
               (st\<lparr>modalType := Some CREATE_SUCCESS, showSuccessModal := True,
                   saving := False\<rparr>, []))
      | Rejected e \<Rightarrow>
          (st\<lparr>errorType := error_message e, modalType := Some ERROR,
              showErrorModal := True, saving := False\<rparr>, [ConsoleError e]))"

text \<open>
  The recipe store of the context, as far as \<open>handleSave\<close> sees it: how each call
  settles.
\<close>

record 'i store =
  editRecipe :: "jsstring \<Rightarrow> 'i recipe \<Rightarrow> outcome"
  addRecipe :: "'i recipe \<Rightarrow> outcome"

definition settle :: "'i store \<Rightarrow> 'i call \<Rightarrow> outcome" where
  "settle db c = (case c of EditRecipe i r \<Rightarrow> editRecipe db i r | AddRecipe r \<Rightarrow> addRecipe db r)"

text \<open>A whole run of \<open>handleSave\<close> against a store whose calls settle.\<close>

definition handleSave ::
  "'i store \<Rightarrow> 'i screen \<Rightarrow> js_error + ('i screen \<times> effect list \<times> 'i call option)" where
  "handleSave db st =
     (case handleSave_begin st of
        Inl e \<Rightarrow> Inl e
      | Inr (st1, effs, None) \<Rightarrow> Inr (st1, effs, None)
      | Inr (st1, effs, Some c) \<Rightarrow>
          (case handleSave_resume c (settle db c) st1 of
             (st2, effs2) \<Rightarrow> Inr (st2, effs @ effs2, Some c)))"

text \<open>
  \<open>getErrorMessage\<close> chooses the title and the message of the error modal from
  \<open>errorType\<close>; each constructor stands for one of the five pairs of texts of the source:
  the invalid image, the invalid ingredients, the invalid steps, the validation error and
  the default "could not save the recipe".
\<close>

datatype error_texts =
  ImageInvalid | IngredientInvalid | StepInvalid | ValidationFailed | SaveFailed

definition getErrorMessage :: "'i screen \<Rightarrow> error_texts" where
  "getErrorMessage st =
     (if errorType st = lit ''IMAGEN_INVALIDA'' then ImageInvalid
      else if errorType st = lit ''INGREDIENTE_INVALIDO'' then IngredientInvalid
      else if errorType st = lit ''PASO_INVALIDO'' then StepInvalid
      else if errorType st = lit ''ERROR_VALIDACION'' then ValidationFailed
      else SaveFailed)"

section \<open>Favorites screen\<close>

text \<open>
  \<open>handleFavoritePress\<close>: the user of the session (absent, or with an identity that may
  be missing), the result of the store's \<open>toggleFavorite\<close>, and what the handler does.
\<close>

record user =
  user_id :: "jsstring option"

record toggle_result =
  success :: bool
  message :: "jsstring option"

datatype 'a fav_effect =
    ShowLoginAlert string
  | ToggleFavorite 'a
  | FavAlert jsstring jsstring

text \<open>
  \<open>!user?.id\<close> holds for an absent user, an absent identity and an empty one.
  \<open>ShowLoginAlert target\<close> is \<open>showLoginAlert\<close> with the callback that navigates
  to \<open>target\<close>. The store's \<open>toggleFavorite\<close> is a parameter: it returns its result or
  throws. \<open>!result.success && result.message\<close> needs a message that is there and not
  empty.
\<close>

definition logged_in :: "user option \<Rightarrow> bool" where
  "logged_in u = (case u of None \<Rightarrow> False | Some usr \<Rightarrow> truthy (user_id usr))"

definition handleFavoritePress ::
  "user option \<Rightarrow> ('a \<Rightarrow> thrown + toggle_result) \<Rightarrow> 'a \<Rightarrow> thrown + 'a fav_effect list" where
  "handleFavoritePress u toggleFavorite item =
     (if \<not> logged_in u then Inr [ShowLoginAlert ''Login'']
      else
        (case toggleFavorite item of
           Inl e \<Rightarrow> Inl e
         | Inr result \<Rightarrow>
             (case message result of
                None \<Rightarrow> Inr [ToggleFavorite item]
              | Some m \<Rightarrow>
                  if \<not> success result \<and> m \<noteq> []
                  then Inr [ToggleFavorite item, FavAlert (lit ''Error'') m]
                  else Inr [ToggleFavorite item])))"

section \<open>Sample data\<close>

text \<open>Concrete steps, recipes, stores, users and toggle results for the examples below.\<close>

definition sample_step :: "string \<Rightarrow> step" where
  "sample_step s = \<lparr>step_text = Some (lit s), description = None, imageUrl = None\<rparr>"

definition sample_recipe ::
  "jsstring option \<Rightarrow> bool option \<Rightarrow> step list option \<Rightarrow> jsstring recipe" where
  "sample_recipe i own ss =
     \<lparr>recipe_id = i, createdByUser = own, ingredients = Some [lit ''harina''],
      recipe_steps = ss\<rparr>"

definition sample_store :: "outcome \<Rightarrow> jsstring store" where
  "sample_store out = \<lparr>editRecipe = (\<lambda>_ _. out), addRecipe = (\<lambda>_. out)\<rparr>"

definition sample_user :: "jsstring option \<Rightarrow> user option" where
  "sample_user i = Some \<lparr>user_id = i\<rparr>"

definition sample_toggle :: "bool \<Rightarrow> jsstring option \<Rightarrow> nat \<Rightarrow> thrown + toggle_result" where
  "sample_toggle ok msg item = Inr \<lparr>success = ok, message = msg\<rparr>"

section \<open>Lists and strings\<close>

text \<open>
  Filtering by position removes exactly the element at that position, and nothing when
  the position is outside the list.
\<close>

lemma filter_enumerate_gen:
  "map snd (filter (\<lambda>(j, _). int j \<noteq> int (n + i)) (enumerate n xs)) = take i xs @ drop (Suc i) xs"
proof (induction xs arbitrary: n i)
  case Nil
  then show ?case by simp
next
  case (Cons x xs)
  show ?case
  proof (cases i)
    case 0
    have "\<forall>p \<in> set (enumerate (Suc n) xs). (\<lambda>(j, _). int j \<noteq> int n) p"
      by (auto simp: in_set_enumerate_eq)
    then have "filter (\<lambda>(j, _). int j \<noteq> int n) (enumerate (Suc n) xs) = enumerate (Suc n) xs"
      by (simp only: filter_True)
    with 0 show ?thesis by simp
  next
    case (Suc k)
    have "map snd (filter (\<lambda>(j, _). int j \<noteq> int (Suc n + k)) (enumerate (Suc n) xs))
            = take k xs @ drop (Suc k) xs"
      by (rule Cons.IH)
    with Suc show ?thesis by simp
  qed
qed

lemma filter_index_eq:
  "filter_index (int i) xs = take i xs @ drop (Suc i) xs"
  using filter_enumerate_gen [of 0 i xs] by (simp add: filter_index_def)

lemma filter_index_outside:
  assumes "index < 0 \<or> int (length xs) \<le> index"
  shows "filter_index index xs = xs"
proof -
  have "\<forall>p \<in> set (enumerate 0 xs). (\<lambda>(j, _). int j \<noteq> index) p"
    using assms by (auto simp: in_set_enumerate_eq)
  then have "filter (\<lambda>(j, _). int j \<noteq> index) (enumerate 0 xs) = enumerate 0 xs"
    by (simp only: filter_True)
  then show ?thesis by (simp add: filter_index_def)
qed

lemma length_filter_index:
  assumes "i < length xs"
  shows "length (filter_index (int i) xs) = length xs - 1"
  using assms by (simp add: filter_index_eq)

lemma trim_Nil: "trim [] = []"
  by (simp add: trim_def)

lemma lit_distinct:
  "lit ''ERROR_GENERAL'' \<noteq> lit ''IMAGEN_INVALIDA''"
  "lit ''ERROR_GENERAL'' \<noteq> lit ''INGREDIENTE_INVALIDO''"
  "lit ''ERROR_GENERAL'' \<noteq> lit ''PASO_INVALIDO''"
  "lit ''ERROR_GENERAL'' \<noteq> lit ''ERROR_VALIDACION''"
  "lit ''IMAGEN_INVALIDA'' \<noteq> lit ''INGREDIENTE_INVALIDO''"
  "lit ''IMAGEN_INVALIDA'' \<noteq> lit ''PASO_INVALIDO''"
  "lit ''IMAGEN_INVALIDA'' \<noteq> lit ''ERROR_VALIDACION''"
  "lit ''INGREDIENTE_INVALIDO'' \<noteq> lit ''PASO_INVALIDO''"
  "lit ''INGREDIENTE_INVALIDO'' \<noteq> lit ''ERROR_VALIDACION''"
  "lit ''PASO_INVALIDO'' \<noteq> lit ''ERROR_VALIDACION''"
  by (simp_all add: lit_def)

section \<open>Properties of the step list editor\<close>

text \<open>
  C8: \<open>addStep\<close> yields the old sequence, unchanged and in order, followed by one new
  step with empty text and empty image URL; the length grows by exactly one, whatever
  the length was.
\<close>

theorem addStep_appends_blank:
  "steps (addStep st) = steps st @ [\<lparr>step_text = Some [], description = None, imageUrl = Some []\<rparr>]
   \<and> length (steps (addStep st)) = length (steps st) + 1
   \<and> take (length (steps st)) (steps (addStep st)) = steps st
   \<and> last (steps (addStep st)) = \<lparr>step_text = Some [], description = None, imageUrl = Some []\<rparr>"
  by (simp add: addStep_def)

text \<open>
  C7: on a sequence of length one \<open>removeStep\<close> changes nothing, for every index, and
  alerts that at least one step is required; on a longer sequence and an index inside it,
  the result is the sequence without the element at the index, the others in their order,
  and is one shorter.
\<close>

theorem removeStep_floor_and_removal:
  "(length (steps st) = 1 \<longrightarrow>
      removeStep index st = (st, [Alert (lit ''Error'') (lit ''Debe tener al menos un paso'')]))
   \<and> (1 < length (steps st) \<and> 0 \<le> index \<and> index < int (length (steps st)) \<longrightarrow>
        removeStep index st =
          (st\<lparr>steps := take (nat index) (steps st) @ drop (Suc (nat index)) (steps st)\<rparr>, [])
        \<and> length (steps (fst (removeStep index st))) = length (steps st) - 1)"
proof (intro conjI impI)
  assume "length (steps st) = 1"
  then show "removeStep index st = (st, [Alert (lit ''Error'') (lit ''Debe tener al menos un paso'')])"
    by (simp add: removeStep_def)
next
  assume h: "1 < length (steps st) \<and> 0 \<le> index \<and> index < int (length (steps st))"
  then have idx: "index = int (nat index)" and lt: "nat index < length (steps st)"
    by linarith+
  have eq: "filter_index index (steps st) = take (nat index) (steps st) @ drop (Suc (nat index)) (steps st)"
    using filter_index_eq [of "nat index" "steps st"] idx by simp
  from h eq show "removeStep index st =
          (st\<lparr>steps := take (nat index) (steps st) @ drop (Suc (nat index)) (steps st)\<rparr>, [])"
    by (simp add: removeStep_def)
  from h eq lt show "length (steps (fst (removeStep index st))) = length (steps st) - 1"
    by (simp add: removeStep_def)
qed

text \<open>A single step is kept; of three steps the middle one is removed.\<close>

theorem removeStep_floor_and_removal_witness:
  "length (steps (initial_screen (Some (sample_recipe None None (Some [sample_step ''a''])))))
     = 1
   \<and> removeStep 0 (initial_screen (Some (sample_recipe None None (Some [sample_step ''a'']))))
     = (initial_screen (Some (sample_recipe None None (Some [sample_step ''a'']))),
        [Alert (lit ''Error'') (lit ''Debe tener al menos un paso'')])
   \<and> steps (fst (removeStep 1 (initial_screen (Some (sample_recipe None None
        (Some [sample_step ''a'', sample_step ''b'', sample_step ''c''])))))) 
     = [sample_step ''a'', sample_step ''c'']"
  using
    removeStep_floor_and_removal [of
      "initial_screen (Some (sample_recipe None None (Some [sample_step ''a''])))" 0]
    removeStep_floor_and_removal [of
      "initial_screen (Some (sample_recipe None None
        (Some [sample_step ''a'', sample_step ''b'', sample_step ''c''])))" 1]
  by (simp add: initial_screen_def initial_steps_def sample_recipe_def)

text \<open>
  C10: on the empty sequence \<open>removeStep\<close> changes nothing and alerts, for every
  index; the editor starts with the empty sequence when it is entered without a recipe
  or with a recipe that has no steps.
\<close>

theorem removeStep_empty_rejected:
  "(steps st = [] \<longrightarrow>
      removeStep index st = (st, [Alert (lit ''Error'') (lit ''Debe tener al menos un paso'')]))
   \<and> steps (initial_screen None) = []
   \<and> (recipe_steps r = None \<or> recipe_steps r = Some [] \<longrightarrow> steps (initial_screen (Some r)) = [])"
  by (auto simp add: removeStep_def initial_screen_def initial_steps_def)

text \<open>A recipe without steps, and one with an empty list of steps.\<close>

theorem removeStep_empty_rejected_witness:
  "steps (initial_screen (Some (sample_recipe None None None))) = []
   \<and> removeStep 0 (initial_screen (Some (sample_recipe None None None)))
     = (initial_screen (Some (sample_recipe None None None)),
        [Alert (lit ''Error'') (lit ''Debe tener al menos un paso'')])
   \<and> removeStep (- 1) (initial_screen (Some (sample_recipe None None (Some []))))
     = (initial_screen (Some (sample_recipe None None (Some []))),
        [Alert (lit ''Error'') (lit ''Debe tener al menos un paso'')])"
  using
    removeStep_empty_rejected [of
      "initial_screen (Some (sample_recipe None None None))" 0 "sample_recipe None None None"]
    removeStep_empty_rejected [of
      "initial_screen (Some (sample_recipe None None (Some [])))" "- 1"
      "sample_recipe None None (Some [])"]
  by (simp add: sample_recipe_def initial_screen_def initial_steps_def)

text \<open>No operation of the editor empties a sequence that is not empty.\<close>

lemma apply_op_nonempty:
  assumes "1 \<le> length (steps st)"
  shows "1 \<le> length (steps (apply_op op st))"
proof (cases op)
  case OpAdd
  then show ?thesis by (simp add: apply_op_def addStep_def)
next
  case (OpRemove index)
  show ?thesis
  proof (cases "1 < length (steps st)")
    case False
    with OpRemove assms show ?thesis by (simp add: apply_op_def removeStep_def)
  next
    case True
    show ?thesis
    proof (cases "0 \<le> index \<and> index < int (length (steps st))")
      case inside: True
      then have idx: "int (nat index) = index" and lt: "nat index < length (steps st)"
        by linarith+
      have "length (filter_index (int (nat index)) (steps st)) = length (steps st) - 1"
        using lt by (rule length_filter_index)
      then have "length (filter_index index (steps st)) = length (steps st) - 1"
        by (simp only: idx)
      with OpRemove True show ?thesis by (simp add: apply_op_def removeStep_def)
    next
      case False
      then have "filter_index index (steps st) = steps st"
        by (intro filter_index_outside) auto
      with OpRemove True show ?thesis by (simp add: apply_op_def removeStep_def)
    qed
  qed
next
  case (OpChange index field v)
  with assms show ?thesis by (simp add: apply_op_def handleChange_def)
qed

lemma run_ops_nonempty:
  "1 \<le> length (steps st) \<Longrightarrow> 1 \<le> length (steps (run_ops ops st))"
proof (induction ops arbitrary: st)
  case Nil
  then show ?case by simp
next
  case (Cons op ops)
  have "1 \<le> length (steps (apply_op op st))"
    using Cons.prems by (rule apply_op_nonempty)
  then have "1 \<le> length (steps (run_ops ops (apply_op op st)))"
    by (rule Cons.IH)
  then show ?case by simp
qed

text \<open>
  C4, as stated, fails: entered with a recipe that has no steps, the editor has an empty
  sequence, and \<open>removeStep\<close> leaves it empty.
\<close>

theorem steps_floor_counterexample:
  "\<not> 1 \<le> length (steps (run_ops [OpRemove 0]
       (initial_screen (Some (sample_recipe None None None)))))"
  by (simp add: apply_op_def removeStep_def initial_screen_def initial_steps_def sample_recipe_def)

text \<open>
  C4, amended: entered with a recipe that has at least one step, the editor has at least
  one step after any sequence of \<open>addStep\<close>, \<open>removeStep\<close> and \<open>handleChange\<close>.
\<close>

theorem steps_nonempty_preserved:
  assumes "recipe_steps r = Some ss" and "ss \<noteq> []"
  shows "1 \<le> length (steps (run_ops ops (initial_screen (Some r))))"
proof -
  have "1 \<le> length (steps (initial_screen (Some r)))"
    using assms by (cases ss) (simp_all add: initial_screen_def initial_steps_def)
  then show ?thesis by (rule run_ops_nonempty)
qed

text \<open>One step, and removals, an update outside the sequence and an addition.\<close>

theorem steps_nonempty_preserved_witness:
  "1 \<le> length (steps (run_ops [OpRemove 0, OpRemove 0, OpChange 5 Text (lit ''x''), OpAdd, OpRemove 1]
       (initial_screen (Some (sample_recipe None None (Some [sample_step ''a'']))))))"
  using steps_nonempty_preserved [of "sample_recipe None None (Some [sample_step ''a''])"
      "[sample_step ''a'']" "[OpRemove 0, OpRemove 0, OpChange 5 Text (lit ''x''), OpAdd, OpRemove 1]"]
  by (simp add: sample_recipe_def)

section \<open>Properties of the save coordinator\<close>

text \<open>
  A string that is not blank after trimming is not empty, so the truthiness test of the
  source adds nothing to the test of the trimmed string.
\<close>

lemma nonblank_iff: "nonblank x \<longleftrightarrow> (\<exists>t. x = Some t \<and> trim t \<noteq> [])"
  by (cases x) (auto simp: nonblank_def trim_Nil)

lemma valid_step_iff:
  "valid_step s \<longleftrightarrow>
     (\<exists>t. step_text s = Some t \<and> trim t \<noteq> []) \<or> (\<exists>d. description s = Some d \<and> trim d \<noteq> [])"
  by (simp add: valid_step_def nonblank_iff)

lemma edit_id_Some_iff:
  "edit_id r = Some i \<longleftrightarrow> recipe_id r = Some i \<and> trim i \<noteq> [] \<and> createdByUser r = Some True"
  by (cases "recipe_id r") (auto simp: edit_id_def trim_Nil)

lemma edit_id_None_iff:
  "edit_id r = None \<longleftrightarrow> \<not> (\<exists>i. recipe_id r = Some i \<and> trim i \<noteq> [] \<and> createdByUser r = Some True)"
  by (cases "recipe_id r") (auto simp: edit_id_def trim_Nil)

lemma handleSave_begin_valid:
  assumes "recipe st = Some r" and "ingredients r = Some igs" and "igs \<noteq> []"
    and "filter valid_step (steps st) \<noteq> []"
  shows "handleSave_begin st =
           Inr (st\<lparr>saving := True\<rparr>, [],
                Some (case edit_id r of
                        Some i \<Rightarrow> EditRecipe i (r\<lparr>recipe_steps := Some (filter valid_step (steps st))\<rparr>)
                      | None \<Rightarrow> AddRecipe (r\<lparr>recipe_steps := Some (filter valid_step (steps st))\<rparr>)))"
  using assms by (simp add: handleSave_begin_def Let_def split: option.splits)

lemma handleSave_begin_call_saving:
  assumes "handleSave_begin st = Inr (st', effs, Some c)"
  shows "st' = st\<lparr>saving := True\<rparr> \<and> effs = []"
  using assms
  by (auto simp: handleSave_begin_def Let_def split: option.splits if_splits)

lemma sample_begin:
  "handleSave_begin (initial_screen (Some (sample_recipe None None (Some [sample_step ''Mezclar'']))))
     = Inr ((initial_screen (Some (sample_recipe None None (Some [sample_step ''Mezclar'']))))
              \<lparr>saving := True\<rparr>, [],
            Some (AddRecipe (sample_recipe None None (Some [sample_step ''Mezclar'']))))"
proof -
  have "valid_step (sample_step ''Mezclar'')"
    by (simp add: sample_step_def valid_step_def nonblank_def lit_def trim_def
          is_white_space_def)
  then show ?thesis
    by (simp add: handleSave_begin_def Let_def edit_id_def initial_screen_def
          initial_steps_def sample_recipe_def)
qed

text \<open>
  C1: for a draft with ingredients and at least one valid step, \<open>completeRecipe\<close> being
  the recipe with its steps replaced by the valid steps of the editor: when the recipe has
  an identity that is not blank after trimming and is created by the user, \<open>handleSave\<close>
  calls \<open>editRecipe\<close> with the identity and \<open>completeRecipe\<close>, and when the call
  resolves the modal is \<open>EDIT_SUCCESS\<close>; in every other case, also for a recipe
  without identity that is created by the user, it calls \<open>addRecipe\<close> with
  \<open>completeRecipe\<close>, and when the call resolves the modal is \<open>CREATE_SUCCESS\<close>.
\<close>

theorem save_chooses_update_or_create:
  assumes "recipe st = Some r" and "ingredients r = Some igs" and "igs \<noteq> []"
    and "filter valid_step (steps st) \<noteq> []"
    and "completeRecipe = r\<lparr>recipe_steps := Some (filter valid_step (steps st))\<rparr>"
  shows "(recipe_id r = Some i \<and> trim i \<noteq> [] \<and> createdByUser r = Some True \<longrightarrow>
            handleSave_begin st = Inr (st\<lparr>saving := True\<rparr>, [], Some (EditRecipe i completeRecipe))
            \<and> (editRecipe db i completeRecipe = Resolved \<longrightarrow>
                 handleSave db st =
                   Inr (st\<lparr>isEditing := True, modalType := Some EDIT_SUCCESS,
                           showSuccessModal := True, saving := False\<rparr>, [],
                        Some (EditRecipe i completeRecipe))))
       \<and> (\<not> (\<exists>j. recipe_id r = Some j \<and> trim j \<noteq> [] \<and> createdByUser r = Some True) \<longrightarrow>
            handleSave_begin st = Inr (st\<lparr>saving := True\<rparr>, [], Some (AddRecipe completeRecipe))
            \<and> (addRecipe db completeRecipe = Resolved \<longrightarrow>
                 handleSave db st =
                   Inr (st\<lparr>modalType := Some CREATE_SUCCESS, showSuccessModal := True,
                           saving := False\<rparr>, [],
                        Some (AddRecipe completeRecipe))))"
proof (intro conjI impI)
  assume "recipe_id r = Some i \<and> trim i \<noteq> [] \<and> createdByUser r = Some True"
  then have e: "edit_id r = Some i" by (simp add: edit_id_Some_iff)
  show b: "handleSave_begin st = Inr (st\<lparr>saving := True\<rparr>, [], Some (EditRecipe i completeRecipe))"
    using handleSave_begin_valid [OF assms(1-4)] e assms(5) by simp
  assume "editRecipe db i completeRecipe = Resolved"
  then show "handleSave db st =
      Inr (st\<lparr>isEditing := True, modalType := Some EDIT_SUCCESS,
              showSuccessModal := True, saving := False\<rparr>, [],
           Some (EditRecipe i completeRecipe))"
    by (simp add: handleSave_def b settle_def handleSave_resume_def)
next
  assume "\<not> (\<exists>j. recipe_id r = Some j \<and> trim j \<noteq> [] \<and> createdByUser r = Some True)"
  then have e: "edit_id r = None" by (rule iffD2 [OF edit_id_None_iff])
  show b: "handleSave_begin st = Inr (st\<lparr>saving := True\<rparr>, [], Some (AddRecipe completeRecipe))"
    using handleSave_begin_valid [OF assms(1-4)] e assms(5) by simp
  assume "addRecipe db completeRecipe = Resolved"
  then show "handleSave db st =
      Inr (st\<lparr>modalType := Some CREATE_SUCCESS, showSuccessModal := True,
              saving := False\<rparr>, [],
           Some (AddRecipe completeRecipe))"
    by (simp add: handleSave_def b settle_def handleSave_resume_def)
qed

text \<open>
  The recipe \<open>r1\<close> of the user with one valid and one blank step is updated; a recipe
  of the user without identity is created.
\<close>

theorem save_chooses_update_or_create_witness:
  "handleSave (sample_store Resolved)
     (initial_screen (Some (sample_recipe (Some (lit ''r1'')) (Some True)
        (Some [sample_step ''Mezclar'', sample_step ''  '']))))
   = Inr ((initial_screen (Some (sample_recipe (Some (lit ''r1'')) (Some True)
            (Some [sample_step ''Mezclar'', sample_step ''  '']))))
            \<lparr>isEditing := True, modalType := Some EDIT_SUCCESS, showSuccessModal := True,
             saving := False\<rparr>, [],
          Some (EditRecipe (lit ''r1'')
            (sample_recipe (Some (lit ''r1'')) (Some True) (Some [sample_step ''Mezclar'']))))
   \<and> handleSave (sample_store Resolved)
     (initial_screen (Some (sample_recipe None (Some True) (Some [sample_step ''Mezclar'']))))
   = Inr ((initial_screen (Some (sample_recipe None (Some True) (Some [sample_step ''Mezclar'']))))
            \<lparr>modalType := Some CREATE_SUCCESS, showSuccessModal := True, saving := False\<rparr>, [],
          Some (AddRecipe (sample_recipe None (Some True) (Some [sample_step ''Mezclar'']))))"
proof -
  let ?r1 = "sample_recipe (Some (lit ''r1'')) (Some True)
               (Some [sample_step ''Mezclar'', sample_step ''  ''])"
  let ?r2 = "sample_recipe None (Some True) (Some [sample_step ''Mezclar''])"
  have v: "valid_step (sample_step ''Mezclar'')" "\<not> valid_step (sample_step ''  '')"
    by (simp_all add: sample_step_def valid_step_def nonblank_def lit_def trim_def
          is_white_space_def)
  have t: "trim (lit ''r1'') \<noteq> []"
    by (simp add: lit_def trim_def is_white_space_def)
  have f1: "filter valid_step (steps (initial_screen (Some ?r1))) = [sample_step ''Mezclar'']"
    using v by (simp add: initial_screen_def initial_steps_def sample_recipe_def)
  have f2: "filter valid_step (steps (initial_screen (Some ?r2))) = [sample_step ''Mezclar'']"
    using v by (simp add: initial_screen_def initial_steps_def sample_recipe_def)
  have a: "?r1\<lparr>recipe_steps := Some (filter valid_step (steps (initial_screen (Some ?r1))))\<rparr>
             = sample_recipe (Some (lit ''r1'')) (Some True) (Some [sample_step ''Mezclar''])"
    by (simp only: f1) (simp add: sample_recipe_def)
  have b: "?r2\<lparr>recipe_steps := Some (filter valid_step (steps (initial_screen (Some ?r2))))\<rparr>
             = ?r2"
    by (simp only: f2) (simp add: sample_recipe_def)
  have e: "handleSave (sample_store Resolved) (initial_screen (Some ?r1))
      = Inr ((initial_screen (Some ?r1))
            \<lparr>isEditing := True, modalType := Some EDIT_SUCCESS, showSuccessModal := True,
             saving := False\<rparr>, [],
          Some (EditRecipe (lit ''r1'')
            (sample_recipe (Some (lit ''r1'')) (Some True) (Some [sample_step ''Mezclar'']))))"
    using save_chooses_update_or_create [of "initial_screen (Some ?r1)" ?r1 "[lit ''harina'']"
        _ "lit ''r1''" "sample_store Resolved", OF _ _ _ _ a [symmetric]] f1 t
    by (simp add: initial_screen_def sample_recipe_def sample_store_def)
  have c: "handleSave (sample_store Resolved) (initial_screen (Some ?r2))
      = Inr ((initial_screen (Some ?r2))
            \<lparr>modalType := Some CREATE_SUCCESS, showSuccessModal := True, saving := False\<rparr>, [],
          Some (AddRecipe ?r2))"
    using save_chooses_update_or_create [of "initial_screen (Some ?r2)" ?r2 "[lit ''harina'']"
        _ "lit ''r1''" "sample_store Resolved", OF _ _ _ _ b [symmetric]] f2
    by (simp add: initial_screen_def sample_recipe_def sample_store_def)
  from e c show ?thesis by (rule conjI)
qed

text \<open>
  C2: for a draft whose ingredients are absent or empty, \<open>handleSave\<close> alerts that an
  ingredient is required and returns: no call of the store, and the state is as before.
\<close>

theorem save_without_ingredients:
  assumes "recipe st = Some r" and "ingredients r = None \<or> ingredients r = Some []"
  shows "handleSave_begin st =
           Inr (st, [Alert (lit ''Error'') (lit ''Debe ingresar al menos un ingrediente.'')], None)
         \<and> handleSave db st =
           Inr (st, [Alert (lit ''Error'') (lit ''Debe ingresar al menos un ingrediente.'')], None)"
proof -
  have b: "handleSave_begin st =
           Inr (st, [Alert (lit ''Error'') (lit ''Debe ingresar al menos un ingrediente.'')], None)"
    using assms by (auto simp: handleSave_begin_def)
  then show ?thesis by (simp add: handleSave_def)
qed

text \<open>A recipe with an empty list of ingredients, and one without the field.\<close>

theorem save_without_ingredients_witness:
  "handleSave (sample_store Resolved)
     (initial_screen (Some ((sample_recipe None None (Some [sample_step ''Mezclar'']))
        \<lparr>ingredients := Some []\<rparr>)))
   = Inr (initial_screen (Some ((sample_recipe None None (Some [sample_step ''Mezclar'']))
            \<lparr>ingredients := Some []\<rparr>)),
          [Alert (lit ''Error'') (lit ''Debe ingresar al menos un ingrediente.'')], None)
   \<and> handleSave (sample_store Resolved)
     (initial_screen (Some ((sample_recipe None None (Some [sample_step ''Mezclar'']))
        \<lparr>ingredients := None\<rparr>)))
   = Inr (initial_screen (Some ((sample_recipe None None (Some [sample_step ''Mezclar'']))
            \<lparr>ingredients := None\<rparr>)),
          [Alert (lit ''Error'') (lit ''Debe ingresar al menos un ingrediente.'')], None)"
  using
    save_without_ingredients [of
      "initial_screen (Some ((sample_recipe None None (Some [sample_step ''Mezclar'']))
        \<lparr>ingredients := Some []\<rparr>))"
      "(sample_recipe None None (Some [sample_step ''Mezclar'']))\<lparr>ingredients := Some []\<rparr>"
      "sample_store Resolved"]
    save_without_ingredients [of
      "initial_screen (Some ((sample_recipe None None (Some [sample_step ''Mezclar'']))
        \<lparr>ingredients := None\<rparr>))"
      "(sample_recipe None None (Some [sample_step ''Mezclar'']))\<lparr>ingredients := None\<rparr>"
      "sample_store Resolved"]
  by (simp add: initial_screen_def sample_recipe_def)

text \<open>
  C3: for a draft with ingredients in which the text and the description of every step
  are absent or blank after trimming, \<open>handleSave\<close> alerts that a step is required and
  returns: no call of the store, and the state is as before. A step is valid exactly when
  its text or its description is there and not blank after trimming.
\<close>

theorem save_without_valid_steps:
  assumes "recipe st = Some r" and "ingredients r = Some igs" and "igs \<noteq> []"
    and "\<forall>s \<in> set (steps st).
           (\<forall>t. step_text s = Some t \<longrightarrow> trim t = []) \<and> (\<forall>d. description s = Some d \<longrightarrow> trim d = [])"
  shows "handleSave_begin st =
           Inr (st, [Alert (lit ''Error'') (lit ''Debe ingresar al menos un paso.'')], None)
         \<and> handleSave db st =
           Inr (st, [Alert (lit ''Error'') (lit ''Debe ingresar al menos un paso.'')], None)
         \<and> (valid_step x \<longleftrightarrow>
              (\<exists>t. step_text x = Some t \<and> trim t \<noteq> []) \<or> (\<exists>d. description x = Some d \<and> trim d \<noteq> []))"
proof -
  have "\<forall>s \<in> set (steps st). \<not> valid_step s"
    using assms(4) by (auto simp: valid_step_iff)
  then have f: "filter valid_step (steps st) = []"
    by (simp add: filter_empty_conv)
  have b: "handleSave_begin st =
           Inr (st, [Alert (lit ''Error'') (lit ''Debe ingresar al menos un paso.'')], None)"
    using assms(1-3) f by (simp add: handleSave_begin_def)
  then have "handleSave db st =
           Inr (st, [Alert (lit ''Error'') (lit ''Debe ingresar al menos un paso.'')], None)"
    by (simp add: handleSave_def)
  with b show ?thesis by (simp only: valid_step_iff simp_thms)
qed

text \<open>A step of two spaces and a step of the empty text.\<close>

theorem save_without_valid_steps_witness:
  "handleSave (sample_store Resolved)
     (initial_screen (Some (sample_recipe None None (Some [sample_step ''  '', sample_step '''']))))
   = Inr (initial_screen (Some (sample_recipe None None
            (Some [sample_step ''  '', sample_step '''']))),
          [Alert (lit ''Error'') (lit ''Debe ingresar al menos un paso.'')], None)"
  using
    save_without_valid_steps [of
      "initial_screen (Some (sample_recipe None None (Some [sample_step ''  '', sample_step ''''])))"
      "sample_recipe None None (Some [sample_step ''  '', sample_step ''''])"
      "[lit ''harina'']" "sample_store Resolved"]
  by (simp add: initial_screen_def initial_steps_def sample_recipe_def sample_step_def lit_def
        trim_def is_white_space_def)




text \<open>
  The four identifiers that \<open>getErrorMessage\<close> knows are distinct, and none is the
  identifier that stands for a thrown value that is not an error.
\<close>

lemma getErrorMessage_cases:
  "(getErrorMessage st = ImageInvalid \<longleftrightarrow> errorType st = lit ''IMAGEN_INVALIDA'')
   \<and> (getErrorMessage st = IngredientInvalid \<longleftrightarrow> errorType st = lit ''INGREDIENTE_INVALIDO'')
   \<and> (getErrorMessage st = StepInvalid \<longleftrightarrow> errorType st = lit ''PASO_INVALIDO'')
   \<and> (getErrorMessage st = ValidationFailed \<longleftrightarrow> errorType st = lit ''ERROR_VALIDACION'')
   \<and> (getErrorMessage st = SaveFailed \<longleftrightarrow>
        errorType st \<noteq> lit ''IMAGEN_INVALIDA'' \<and> errorType st \<noteq> lit ''INGREDIENTE_INVALIDO''
        \<and> errorType st \<noteq> lit ''PASO_INVALIDO'' \<and> errorType st \<noteq> lit ''ERROR_VALIDACION'')"
  using lit_distinct by (simp add: getErrorMessage_def)

lemma getErrorMessage_thrown:
  assumes "errorType st = error_message e"
  shows "(getErrorMessage st = ImageInvalid \<longleftrightarrow> e = Error (lit ''IMAGEN_INVALIDA''))
   \<and> (getErrorMessage st = IngredientInvalid \<longleftrightarrow> e = Error (lit ''INGREDIENTE_INVALIDO''))
   \<and> (getErrorMessage st = StepInvalid \<longleftrightarrow> e = Error (lit ''PASO_INVALIDO''))
   \<and> (getErrorMessage st = ValidationFailed \<longleftrightarrow> e = Error (lit ''ERROR_VALIDACION''))
   \<and> (getErrorMessage st = SaveFailed \<longleftrightarrow>
        e \<noteq> Error (lit ''IMAGEN_INVALIDA'') \<and> e \<noteq> Error (lit ''INGREDIENTE_INVALIDO'')
        \<and> e \<noteq> Error (lit ''PASO_INVALIDO'') \<and> e \<noteq> Error (lit ''ERROR_VALIDACION''))"
proof (cases e)
  case (Error m)
  then have "errorType st = m" using assms by (simp add: error_message_def)
  with Error show ?thesis using getErrorMessage_cases [of st] by simp
next
  case NotAnError
  then have "errorType st = lit ''ERROR_GENERAL''" using assms by (simp add: error_message_def)
  with NotAnError show ?thesis using getErrorMessage_cases [of st] lit_distinct(1-4) by simp
qed

text \<open>
  C6: when the call of the store that \<open>handleSave\<close> awaits is rejected, the rejection
  is caught: \<open>handleSave\<close> ends with the modal \<open>ERROR\<close>, the error modal shown,
  \<open>errorType\<close> the message of the error or \<open>ERROR_GENERAL\<close>, and \<open>saving\<close>
  cleared. \<open>getErrorMessage\<close> then gives the texts of the invalid image, the invalid
  ingredients, the invalid steps or the validation error exactly for an error with the
  identifier of that kind, and the default texts for every other thrown value. However the
  call settles, \<open>saving\<close> is cleared afterwards.
\<close>

theorem save_failure_caught_and_classified:
  assumes "handleSave_begin st = Inr (st1, effs, Some c)" and "settle db c = Rejected e"
  shows "(\<exists>st2. handleSave db st = Inr (st2, [ConsoleError e], Some c)
              \<and> errorType st2 = error_message e \<and> modalType st2 = Some ERROR
              \<and> showErrorModal st2 \<and> \<not> saving st2
              \<and> (getErrorMessage st2 = ImageInvalid \<longleftrightarrow> e = Error (lit ''IMAGEN_INVALIDA''))
              \<and> (getErrorMessage st2 = IngredientInvalid \<longleftrightarrow> e = Error (lit ''INGREDIENTE_INVALIDO''))
              \<and> (getErrorMessage st2 = StepInvalid \<longleftrightarrow> e = Error (lit ''PASO_INVALIDO''))
              \<and> (getErrorMessage st2 = ValidationFailed \<longleftrightarrow> e = Error (lit ''ERROR_VALIDACION''))
              \<and> (getErrorMessage st2 = SaveFailed \<longleftrightarrow>
                   e \<noteq> Error (lit ''IMAGEN_INVALIDA'') \<and> e \<noteq> Error (lit ''INGREDIENTE_INVALIDO'')
                   \<and> e \<noteq> Error (lit ''PASO_INVALIDO'') \<and> e \<noteq> Error (lit ''ERROR_VALIDACION'')))
         \<and> (\<forall>out. \<not> saving (fst (handleSave_resume c out st1)))"
proof -
  let ?st2 = "st\<lparr>errorType := error_message e, modalType := Some ERROR,
                 showErrorModal := True, saving := False\<rparr>"
  have st1: "st1 = st\<lparr>saving := True\<rparr>" and "effs = []"
    using handleSave_begin_call_saving [OF assms(1)] by simp_all
  then have run: "handleSave db st = Inr (?st2, [ConsoleError e], Some c)"
    using assms by (simp add: handleSave_def handleSave_resume_def)
  have cls:
    "(getErrorMessage ?st2 = ImageInvalid \<longleftrightarrow> e = Error (lit ''IMAGEN_INVALIDA''))
   \<and> (getErrorMessage ?st2 = IngredientInvalid \<longleftrightarrow> e = Error (lit ''INGREDIENTE_INVALIDO''))
   \<and> (getErrorMessage ?st2 = StepInvalid \<longleftrightarrow> e = Error (lit ''PASO_INVALIDO''))
   \<and> (getErrorMessage ?st2 = ValidationFailed \<longleftrightarrow> e = Error (lit ''ERROR_VALIDACION''))
   \<and> (getErrorMessage ?st2 = SaveFailed \<longleftrightarrow>
        e \<noteq> Error (lit ''IMAGEN_INVALIDA'') \<and> e \<noteq> Error (lit ''INGREDIENTE_INVALIDO'')
        \<and> e \<noteq> Error (lit ''PASO_INVALIDO'') \<and> e \<noteq> Error (lit ''ERROR_VALIDACION''))"
    by (rule getErrorMessage_thrown) simp
  have fin: "\<not> saving (fst (handleSave_resume c out st1))" for out
    by (cases out; cases c) (simp_all add: handleSave_resume_def)
  have "errorType ?st2 = error_message e \<and> modalType ?st2 = Some ERROR
          \<and> showErrorModal ?st2 \<and> \<not> saving ?st2"
    by simp
  with run cls have "\<exists>st2. handleSave db st = Inr (st2, [ConsoleError e], Some c)
              \<and> errorType st2 = error_message e \<and> modalType st2 = Some ERROR
              \<and> showErrorModal st2 \<and> \<not> saving st2
              \<and> (getErrorMessage st2 = ImageInvalid \<longleftrightarrow> e = Error (lit ''IMAGEN_INVALIDA''))
              \<and> (getErrorMessage st2 = IngredientInvalid \<longleftrightarrow> e = Error (lit ''INGREDIENTE_INVALIDO''))
              \<and> (getErrorMessage st2 = StepInvalid \<longleftrightarrow> e = Error (lit ''PASO_INVALIDO''))
              \<and> (getErrorMessage st2 = ValidationFailed \<longleftrightarrow> e = Error (lit ''ERROR_VALIDACION''))
              \<and> (getErrorMessage st2 = SaveFailed \<longleftrightarrow>
                   e \<noteq> Error (lit ''IMAGEN_INVALIDA'') \<and> e \<noteq> Error (lit ''INGREDIENTE_INVALIDO'')
                   \<and> e \<noteq> Error (lit ''PASO_INVALIDO'') \<and> e \<noteq> Error (lit ''ERROR_VALIDACION''))"
    by (intro exI [of _ ?st2]) (simp only: simp_thms)
  with fin show ?thesis by blast
qed

text \<open>The store rejects \<open>addRecipe\<close> with the error \<open>PASO_INVALIDO\<close>.\<close>

theorem save_failure_caught_and_classified_witness:
  "handleSave (sample_store (Rejected (Error (lit ''PASO_INVALIDO''))))
       (initial_screen (Some (sample_recipe None None (Some [sample_step ''Mezclar'']))))
     = Inr ((initial_screen (Some (sample_recipe None None (Some [sample_step ''Mezclar'']))))
              \<lparr>errorType := lit ''PASO_INVALIDO'', modalType := Some ERROR,
               showErrorModal := True, saving := False\<rparr>,
            [ConsoleError (Error (lit ''PASO_INVALIDO''))],
            Some (AddRecipe (sample_recipe None None (Some [sample_step ''Mezclar'']))))
   \<and> getErrorMessage ((initial_screen (Some (sample_recipe None None (Some [sample_step ''Mezclar'']))))
              \<lparr>errorType := lit ''PASO_INVALIDO'', modalType := Some ERROR,
               showErrorModal := True, saving := False\<rparr>) = StepInvalid"
proof -
  let ?st = "initial_screen (Some (sample_recipe None None (Some [sample_step ''Mezclar''])))"
  let ?c = "AddRecipe (sample_recipe None None (Some [sample_step ''Mezclar'']))"
  let ?db = "sample_store (Rejected (Error (lit ''PASO_INVALIDO'')))"
  let ?st2 = "?st\<lparr>errorType := lit ''PASO_INVALIDO'', modalType := Some ERROR,
               showErrorModal := True, saving := False\<rparr>"
  have s: "settle ?db ?c = Rejected (Error (lit ''PASO_INVALIDO''))"
    by (simp add: settle_def sample_store_def)
  have run: "handleSave ?db ?st = Inr (?st2, [ConsoleError (Error (lit ''PASO_INVALIDO''))], Some ?c)"
    by (simp add: handleSave_def sample_begin s handleSave_resume_def error_message_def)
  obtain st2 where
    r: "handleSave ?db ?st = Inr (st2, [ConsoleError (Error (lit ''PASO_INVALIDO''))], Some ?c)"
    and g: "getErrorMessage st2 = StepInvalid \<longleftrightarrow>
              Error (lit ''PASO_INVALIDO'') = Error (lit ''PASO_INVALIDO'')"
    using save_failure_caught_and_classified [OF sample_begin s] by blast
  from r run have "st2 = ?st2" by simp
  with g have "getErrorMessage ?st2 = StepInvalid" by simp
  with run show ?thesis by (rule conjI)
qed

section \<open>Properties of the favorites screen\<close>

text \<open>
  C9: without a user, or with a user whose identity is absent or empty,
  \<open>handleFavoritePress\<close> asks for the login alert and does not call
  \<open>toggleFavorite\<close>. With a user that has an identity it calls \<open>toggleFavorite\<close>
  with the item, and it alerts afterwards exactly when the result is not a success and has
  a message that is not empty; the alert shows that message.
\<close>

theorem favorite_toggle_requires_login:
  "((u = None \<or> (\<exists>usr. u = Some usr \<and> (user_id usr = None \<or> user_id usr = Some []))) \<longrightarrow>
      handleFavoritePress u toggleFavorite item = Inr [ShowLoginAlert ''Login''])
   \<and> ((\<exists>usr i. u = Some usr \<and> user_id usr = Some i \<and> i \<noteq> []) \<and> toggleFavorite item = Inr res \<longrightarrow>
        (\<exists>effs. handleFavoritePress u toggleFavorite item = Inr (ToggleFavorite item # effs)
           \<and> (effs = [] \<or> (\<exists>m. effs = [FavAlert (lit ''Error'') m]))
           \<and> (\<forall>m. effs = [FavAlert (lit ''Error'') m] \<longleftrightarrow>
                 \<not> success res \<and> message res = Some m \<and> m \<noteq> [])))"
  by (auto simp: handleFavoritePress_def logged_in_def truthy_def split: option.splits)

text \<open>
  No user and a user with an empty identity; a user \<open>u1\<close> with a toggle that succeeds
  and with one that fails with a message.
\<close>

theorem favorite_toggle_requires_login_witness:
  "handleFavoritePress None (sample_toggle True None) 7 = Inr [ShowLoginAlert ''Login'']
   \<and> handleFavoritePress (sample_user (Some [])) (sample_toggle True None) 7
       = Inr [ShowLoginAlert ''Login'']
   \<and> handleFavoritePress (sample_user (Some (lit ''u1''))) (sample_toggle True None) 7
       = Inr [ToggleFavorite 7]
   \<and> handleFavoritePress (sample_user (Some (lit ''u1'')))
         (sample_toggle False (Some (lit ''Limite''))) 7
       = Inr [ToggleFavorite 7, FavAlert (lit ''Error'') (lit ''Limite'')]"
  using
    favorite_toggle_requires_login [of None "sample_toggle True None" 7]
    favorite_toggle_requires_login [of "sample_user (Some [])" "sample_toggle True None" 7]
    favorite_toggle_requires_login [of "sample_user (Some (lit ''u1''))"
      "sample_toggle True None" 7 "\<lparr>success = True, message = None\<rparr>"]
    favorite_toggle_requires_login [of "sample_user (Some (lit ''u1''))"
      "sample_toggle False (Some (lit ''Limite''))" 7
      "\<lparr>success = False, message = Some (lit ''Limite'')\<rparr>"]
  by (auto simp add: sample_user_def sample_toggle_def lit_def)

end
